theory Spec2Isabelle
  imports Main
begin

section \<open>The design expressions read by the OpenAPI 3 generator\<close>

text \<open>
  The generator of \<^verbatim>\<open>openapi3\<close> reads a goa design (package \<^verbatim>\<open>expr\<close>) and builds
  a document of package \<^verbatim>\<open>kin-openapi/openapi3\<close>. Both packages are libraries; the
  records below hold the fields that the generator reads and writes. A Go pointer
  that may be \<^verbatim>\<open>nil\<close> is an \<open>option\<close>; a slice that the code compares with
  \<^verbatim>\<open>nil\<close> is a \<open>list option\<close>, any other slice a \<open>list\<close> (the empty list
  standing for \<^verbatim>\<open>nil\<close>).
\<close>

type_synonym error = string
  \<comment> \<open>a Go \<^verbatim>\<open>error\<close>, by the message its \<^verbatim>\<open>Error()\<close> method returns\<close>

record ContactExpr =
  ContactExpr_Name :: string
  ContactExpr_URL :: string
  ContactExpr_Email :: string

record LicenseExpr =
  LicenseExpr_Name :: string
  LicenseExpr_URL :: string

record HostExpr =
  HostExpr_Description :: string
  HostExpr_URIs :: "string list"

record ServerExpr =
  ServerExpr_Hosts :: "HostExpr list"

text \<open>The kind of an attribute's type: all that \<^verbatim>\<open>expr.IsArray\<close> looks at.\<close>

datatype Kind =
  BooleanKind | IntKind | FloatKind | StringKind | BytesKind | AnyKind
  | ArrayKind | ObjectKind | MapKind | UnionKind

record AttributeExpr =
  AttributeExpr_Type :: Kind
  AttributeExpr_Description :: string
  AttributeExpr_Meta :: "(string \<times> string list) list"

text \<open>
  A mapped attribute, as \<^verbatim>\<open>codegen.WalkMappedAttr\<close> presents it to its iterator: one
  entry per attribute, in declaration order, with the attribute's name, the name
  of the HTTP element it is mapped to, whether it is required, and the attribute.
\<close>

record MappedEntry =
  Entry_Name :: string
  Entry_ElemName :: string
  Entry_Required :: bool
  Entry_Attribute :: AttributeExpr

type_synonym MappedAttributeExpr = "MappedEntry list"

record MethodExpr =
  MethodExpr_Name :: string
  MethodExpr_Description :: string

text \<open>
  A route holds a back reference to its endpoint, read only for the description
  (\<^verbatim>\<open>r.Endpoint.Description()\<close>): the field \<open>RouteExpr_Endpoint\<close> is the method
  expression that this reference leads to.
\<close>

record RouteExpr =
  RouteExpr_Method :: string
  RouteExpr_Path :: string
  RouteExpr_Endpoint :: MethodExpr

record HTTPEndpointExpr =
  HTTPEndpointExpr_MethodExpr :: MethodExpr
  HTTPEndpointExpr_Params :: "MappedAttributeExpr option"
  HTTPEndpointExpr_Routes :: "RouteExpr list"

record HTTPServiceExpr =
  HTTPServiceExpr_Name :: string
  HTTPServiceExpr_HTTPEndpoints :: "HTTPEndpointExpr list"

record APIExpr =
  APIExpr_Title :: string
  APIExpr_Description :: string
  APIExpr_TermsOfService :: string
  APIExpr_Contact :: "ContactExpr option"
  APIExpr_License :: "LicenseExpr option"
  APIExpr_Version :: string
  APIExpr_Servers :: "ServerExpr list option"
  APIExpr_HTTP_Services :: "HTTPServiceExpr list"

record RootExpr =
  RootExpr_API :: APIExpr

section \<open>The OpenAPI 3 document\<close>

record Contact =
  Contact_Name :: string
  Contact_URL :: string
  Contact_Email :: string

record License =
  License_Name :: string
  License_URL :: string

record Info =
  Info_Title :: string
  Info_Description :: string
  Info_TermsOfService :: string
  Info_Contact :: "Contact option"
  Info_License :: "License option"
  Info_Version :: string

record Server =
  Server_URL :: string
  Server_Description :: string

section \<open>Document metadata and servers\<close>

definition contact :: "ContactExpr option \<Rightarrow> Contact option" where
  "contact c =
     (case c of
        Some c' \<Rightarrow>
          Some \<lparr>Contact_Name = ContactExpr_Name c',
                Contact_URL = ContactExpr_URL c',
                Contact_Email = ContactExpr_Email c'\<rparr>
      | None \<Rightarrow> None)"

definition license :: "LicenseExpr option \<Rightarrow> License option" where
  "license l =
     (case l of
        Some l' \<Rightarrow>
          Some \<lparr>License_Name = LicenseExpr_Name l', License_URL = LicenseExpr_URL l'\<rparr>
      | None \<Rightarrow> None)"

definition info :: "APIExpr \<Rightarrow> Info" where
  "info api =
     (let version = ''unversioned'';
          version = (if APIExpr_Version api \<noteq> '''' then APIExpr_Version api else version)
      in \<lparr>Info_Title = APIExpr_Title api,
          Info_Description = APIExpr_Description api,
          Info_TermsOfService = APIExpr_TermsOfService api,
          Info_Contact = contact (APIExpr_Contact api),
          Info_License = license (APIExpr_License api),
          Info_Version = version\<rparr>)"

text \<open>
  The three nested \<^verbatim>\<open>range\<close> loops of \<^verbatim>\<open>servers\<close>, innermost first; each
  threads the slice that \<^verbatim>\<open>append\<close> grows.
\<close>

definition servers_uri :: "HostExpr \<Rightarrow> string \<Rightarrow> Server list \<Rightarrow> Server list" where
  "servers_uri host uri acc =
     acc @ [\<lparr>Server_URL = uri, Server_Description = HostExpr_Description host\<rparr>]"

definition servers_host :: "HostExpr \<Rightarrow> Server list \<Rightarrow> Server list" where
  "servers_host host acc = fold (servers_uri host) (HostExpr_URIs host) acc"

definition servers_server :: "ServerExpr \<Rightarrow> Server list \<Rightarrow> Server list" where
  "servers_server server acc = fold servers_host (ServerExpr_Hosts server) acc"

definition servers :: "ServerExpr list option \<Rightarrow> Server list option" where
  "servers s =
     (case s of
        None \<Rightarrow> None
      | Some s' \<Rightarrow> Some (fold servers_server s' []))"

text \<open>
  The cross product the servers list is compared with: for every server, for every
  host of it, for every URI of the host, the pair of the host and the URI.
\<close>

definition host_uri_pairs :: "ServerExpr list \<Rightarrow> (HostExpr \<times> string) list" where
  "host_uri_pairs s =
     concat (map (\<lambda>server.
       concat (map (\<lambda>host. map (\<lambda>uri. (host, uri)) (HostExpr_URIs host))
         (ServerExpr_Hosts server))) s)"

definition server_entry :: "HostExpr \<times> string \<Rightarrow> Server" where
  "server_entry hu =
     \<lparr>Server_URL = snd hu, Server_Description = HostExpr_Description (fst hu)\<rparr>"

section \<open>Parameters\<close>

record Parameter =
  Parameter_In :: string
  Parameter_Name :: string
  Parameter_Description :: string
  Parameter_Required :: bool
  Parameter_Explode :: "bool option"

record ParameterRef =
  ParameterRef_Value :: Parameter

definition IsArray :: "Kind \<Rightarrow> bool" where
  "IsArray dt = (dt = ArrayKind)"

definition paramFor :: "AttributeExpr \<Rightarrow> string \<Rightarrow> string \<Rightarrow> bool \<Rightarrow> ParameterRef" where
  "paramFor at name in' required =
     (let p = \<lparr>ParameterRef_Value =
                 \<lparr>Parameter_In = in',
                  Parameter_Name = name,
                  Parameter_Description = AttributeExpr_Description at,
                  Parameter_Required = required,
                  Parameter_Explode = None\<rparr>\<rparr>
      in if IsArray (AttributeExpr_Type at)
         then p\<lparr>ParameterRef_Value := (ParameterRef_Value p)\<lparr>Parameter_Explode := Some True\<rparr>\<rparr>
         else p)"

text \<open>
  \<^verbatim>\<open>codegen.WalkMappedAttr\<close> calls the iterator on every attribute in declaration
  order and stops at the first error the iterator returns. The iterator is a
  closure: the variables it assigns are the state \<open>'s\<close> that it takes and returns.
\<close>

fun WalkMappedAttr ::
  "MappedAttributeExpr \<Rightarrow> (string \<Rightarrow> string \<Rightarrow> bool \<Rightarrow> AttributeExpr \<Rightarrow> 's \<Rightarrow> error option \<times> 's)
     \<Rightarrow> 's \<Rightarrow> error option \<times> 's" where
  "WalkMappedAttr [] it s = (None, s)"
| "WalkMappedAttr (e # es) it s =
     (case it (Entry_Name e) (Entry_ElemName e) (Entry_Required e) (Entry_Attribute e) s of
        (Some err, s') \<Rightarrow> (Some err, s')
      | (None, s') \<Rightarrow> WalkMappedAttr es it s')"

text \<open>
  The loop over the wildcards inside the iterator: the state is the pair of
  \<^verbatim>\<open>in\<close> and \<^verbatim>\<open>required\<close>; the first wildcard equal to the attribute's name sets
  both and leaves the loop.
\<close>

fun wildcards_loop :: "string \<Rightarrow> string list \<Rightarrow> string \<times> bool \<Rightarrow> string \<times> bool" where
  "wildcards_loop n [] s = s"
| "wildcards_loop n (w # ws) s =
     (if n = w then (''path'', True) else wildcards_loop n ws s)"

text \<open>
  The iterator of \<^verbatim>\<open>paramsFromExpr\<close>; its state is the slice \<^verbatim>\<open>res\<close> and the
  counter \<^verbatim>\<open>i\<close>.
\<close>

definition paramsFromExpr_walker ::
  "string list \<Rightarrow> string \<Rightarrow> string \<Rightarrow> bool \<Rightarrow> AttributeExpr \<Rightarrow> ParameterRef list \<times> int
     \<Rightarrow> error option \<times> (ParameterRef list \<times> int)" where
  "paramsFromExpr_walker wildcards n pn required at s =
     (case s of (res, i) \<Rightarrow>
        (case wildcards_loop n wildcards (''query'', required) of (in', required') \<Rightarrow>
           (let param = paramFor at pn in' required'
            in (None, (res @ [param], i + 1)))))"

text \<open>
  \<^verbatim>\<open>expr.ExtractHTTPWildcards\<close> belongs to the goa library: \<open>paramsFromExpr\<close> and
  every function that reaches it take it as the parameter \<open>extract\<close>.
\<close>

definition paramsFromExpr ::
  "(string \<Rightarrow> string list) \<Rightarrow> MappedAttributeExpr option \<Rightarrow> string \<Rightarrow> ParameterRef list" where
  "paramsFromExpr extract params path =
     (case params of
        None \<Rightarrow> []
      | Some params' \<Rightarrow>
          (let wildcards = extract path
           in case WalkMappedAttr params' (paramsFromExpr_walker wildcards) ([], 0) of
                (_, (res, i)) \<Rightarrow> res))"

text \<open>
  Modelled from the spec: \<^verbatim>\<open>expr.ExtractHTTPWildcards\<close> is a function of the goa
  library, not of this repository. The specification describes it as extracting
  the wildcard names of a path template, the segments delimited by braces. The
  scan below returns the text between every opening brace and the closing brace
  that follows it; the second argument is the name being read, if any. It
  instantiates \<open>extract\<close> on concrete inputs only.
\<close>

fun wildcards_scan :: "string \<Rightarrow> string option \<Rightarrow> string list" where
  "wildcards_scan [] cur = []"
| "wildcards_scan (c # cs) None =
     (if c = CHR ''{'' then wildcards_scan cs (Some []) else wildcards_scan cs None)"
| "wildcards_scan (c # cs) (Some name) =
     (if c = CHR ''}'' then name # wildcards_scan cs None
      else wildcards_scan cs (Some (name @ [c])))"

definition ExtractHTTPWildcards :: "string \<Rightarrow> string list" where
  "ExtractHTTPWildcards path = wildcards_scan path None"

text \<open>
  What the specification says of one attribute, given the wildcards of the path:
  a parameter in the path and required when the attribute's name is a wildcard, a
  query parameter with the attribute's own required flag otherwise; an array is
  exploded.
\<close>

definition classify_entry :: "string list \<Rightarrow> MappedEntry \<Rightarrow> ParameterRef" where
  "classify_entry wildcards e =
     \<lparr>ParameterRef_Value =
        \<lparr>Parameter_In = (if Entry_Name e \<in> set wildcards then ''path'' else ''query''),
         Parameter_Name = Entry_ElemName e,
         Parameter_Description = AttributeExpr_Description (Entry_Attribute e),
         Parameter_Required =
           (if Entry_Name e \<in> set wildcards then True else Entry_Required e),
         Parameter_Explode =
           (if AttributeExpr_Type (Entry_Attribute e) = ArrayKind then Some True else None)\<rparr>\<rparr>"

text \<open>
  The security roles that the DSL functions \<^verbatim>\<open>Username\<close>, \<^verbatim>\<open>Password\<close>,
  \<^verbatim>\<open>APIKey\<close>, \<^verbatim>\<open>AccessToken\<close> and \<^verbatim>\<open>Token\<close> attach to an attribute, each as a
  key of its metadata; the key of an API key ends with the name of the scheme.
\<close>

definition security_key :: "string \<Rightarrow> bool" where
  "security_key k =
     (k = ''security:username'' \<or> k = ''security:password''
      \<or> take (length ''security:apikey:'') k = ''security:apikey:''
      \<or> k = ''security:accesstoken'' \<or> k = ''security:token'')"

definition security_tagged :: "AttributeExpr \<Rightarrow> bool" where
  "security_tagged at = list_ex (\<lambda>kv. security_key (fst kv)) (AttributeExpr_Meta at)"

section \<open>Operations and paths\<close>

record ResponseRef =
  ResponseRef_Ref :: string

record Operation =
  Operation_OperationID :: string
  Operation_Description :: string
  Operation_Parameters :: "ParameterRef list"
  Operation_Responses :: "string \<rightharpoonup> ResponseRef"

record PathItem =
  PathItem_Connect :: "Operation option"
  PathItem_Delete :: "Operation option"
  PathItem_Get :: "Operation option"
  PathItem_Head :: "Operation option"
  PathItem_Options :: "Operation option"
  PathItem_Patch :: "Operation option"
  PathItem_Post :: "Operation option"
  PathItem_Put :: "Operation option"
  PathItem_Trace :: "Operation option"

text \<open>\<^verbatim>\<open>&openapi3.PathItem{}\<close>: no operation in any field.\<close>

definition PathItem_zero :: PathItem where
  "PathItem_zero =
     \<lparr>PathItem_Connect = None, PathItem_Delete = None, PathItem_Get = None,
      PathItem_Head = None, PathItem_Options = None, PathItem_Patch = None,
      PathItem_Post = None, PathItem_Put = None, PathItem_Trace = None\<rparr>"

definition operation ::
  "(string \<Rightarrow> string list) \<Rightarrow> HTTPServiceExpr \<Rightarrow> HTTPEndpointExpr \<Rightarrow> RouteExpr \<Rightarrow> Operation" where
  "operation extract s e r =
     (let params = paramsFromExpr extract (HTTPEndpointExpr_Params e) (RouteExpr_Path r);
          responses = Map.empty
      in \<lparr>Operation_OperationID =
            HTTPServiceExpr_Name s @ ''#'' @ MethodExpr_Name (HTTPEndpointExpr_MethodExpr e),
          Operation_Description = MethodExpr_Description (RouteExpr_Endpoint r),
          Operation_Parameters = params,
          Operation_Responses = responses\<rparr>)"

text \<open>
  The body of the innermost loop of \<^verbatim>\<open>paths\<close>, then the three loops, innermost
  first; each threads the map \<^verbatim>\<open>paths\<close>.
\<close>

definition paths_route ::
  "(string \<Rightarrow> string list) \<Rightarrow> HTTPServiceExpr \<Rightarrow> HTTPEndpointExpr \<Rightarrow> RouteExpr
     \<Rightarrow> (string \<rightharpoonup> PathItem) \<Rightarrow> (string \<rightharpoonup> PathItem)" where
  "paths_route extract service endpoint route paths =
     (let path = (case paths (RouteExpr_Path route) of
                    Some path \<Rightarrow> path
                  | None \<Rightarrow> PathItem_zero);
          operation' = operation extract service endpoint route;
          path = path\<lparr>PathItem_Get := Some operation'\<rparr>
      in paths(RouteExpr_Path route \<mapsto> path))"

definition paths_endpoint ::
  "(string \<Rightarrow> string list) \<Rightarrow> HTTPServiceExpr \<Rightarrow> HTTPEndpointExpr
     \<Rightarrow> (string \<rightharpoonup> PathItem) \<Rightarrow> (string \<rightharpoonup> PathItem)" where
  "paths_endpoint extract service endpoint paths =
     fold (paths_route extract service endpoint) (HTTPEndpointExpr_Routes endpoint) paths"

definition paths_service ::
  "(string \<Rightarrow> string list) \<Rightarrow> HTTPServiceExpr \<Rightarrow> (string \<rightharpoonup> PathItem) \<Rightarrow> (string \<rightharpoonup> PathItem)" where
  "paths_service extract service paths =
     fold (paths_endpoint extract service) (HTTPServiceExpr_HTTPEndpoints service) paths"

definition paths :: "(string \<Rightarrow> string list) \<Rightarrow> RootExpr \<Rightarrow> (string \<rightharpoonup> PathItem)" where
  "paths extract r =
     fold (paths_service extract) (APIExpr_HTTP_Services (RootExpr_API r)) Map.empty"

record Swagger =
  Swagger_OpenAPI :: string
  Swagger_Info :: Info
  Swagger_Servers :: "Server list option"
  Swagger_Paths :: "string \<rightharpoonup> PathItem"

definition NewV3 :: "(string \<Rightarrow> string list) \<Rightarrow> RootExpr \<Rightarrow> Swagger \<times> error option" where
  "NewV3 extract r =
     (\<lparr>Swagger_OpenAPI = ''3.0.0'',
       Swagger_Info = info (RootExpr_API r),
       Swagger_Servers = servers (APIExpr_Servers (RootExpr_API r)),
       Swagger_Paths = paths extract r\<rparr>, None)"

text \<open>
  The routes of a design in the order in which \<^verbatim>\<open>paths\<close> visits them, each with
  its service and its endpoint.
\<close>

definition routes_of :: "RootExpr \<Rightarrow> (HTTPServiceExpr \<times> HTTPEndpointExpr \<times> RouteExpr) list" where
  "routes_of r =
     concat (map (\<lambda>service.
       concat (map (\<lambda>endpoint. map (\<lambda>route. (service, endpoint, route))
           (HTTPEndpointExpr_Routes endpoint))
         (HTTPServiceExpr_HTTPEndpoints service)))
       (APIExpr_HTTP_Services (RootExpr_API r)))"

text \<open>The same design with the HTTP verb of every route replaced by \<open>verb route\<close>.\<close>

definition with_verbs :: "(RouteExpr \<Rightarrow> string) \<Rightarrow> RootExpr \<Rightarrow> RootExpr" where
  "with_verbs verb r =
     r\<lparr>RootExpr_API := (RootExpr_API r)\<lparr>APIExpr_HTTP_Services :=
         map (\<lambda>service. service\<lparr>HTTPServiceExpr_HTTPEndpoints :=
           map (\<lambda>endpoint. endpoint\<lparr>HTTPEndpointExpr_Routes :=
             map (\<lambda>route. route\<lparr>RouteExpr_Method := verb route\<rparr>)
               (HTTPEndpointExpr_Routes endpoint)\<rparr>)
             (HTTPServiceExpr_HTTPEndpoints service)\<rparr>)
           (APIExpr_HTTP_Services (RootExpr_API r))\<rparr>\<rparr>"

section \<open>The generated files\<close>

record SectionTemplate =
  SectionTemplate_Name :: string
  SectionTemplate_FuncMap :: "string list"
  SectionTemplate_Source :: string
  SectionTemplate_Data :: Swagger

text \<open>
  The path of a file is kept as the list of elements that the code hands to
  \<^verbatim>\<open>filepath.Join\<close>; the function map of a section by the names it binds.
\<close>

record File =
  File_Path :: "string list"
  File_SectionTemplates :: "SectionTemplate list"

text \<open>
  \<^verbatim>\<open>codegen.Gendir\<close> is a variable of the goa library: \<open>openapiFiles\<close> takes its
  value as the parameter \<open>Gendir\<close>.
\<close>

definition openapiFiles ::
  "(string \<Rightarrow> string list) \<Rightarrow> string \<Rightarrow> RootExpr \<Rightarrow> File option \<times> File option \<times> error option" where
  "openapiFiles extract Gendir r =
     (if length (APIExpr_HTTP_Services (RootExpr_API r)) = 0 then (None, None, None)
      else
        (let jsonPath = [Gendir, ''http'', ''openapi.json''];
             yamlPath = [Gendir, ''http'', ''openapi.yaml'']
         in case NewV3 extract r of
              (spec, Some err) \<Rightarrow> (None, None, Some err)
            | (spec, None) \<Rightarrow>
                (let jsonSection =
                       \<lparr>SectionTemplate_Name = ''openapi'',
                        SectionTemplate_FuncMap = [''toJSON''],
                        SectionTemplate_Source = ''{{ toJSON .}}'',
                        SectionTemplate_Data = spec\<rparr>;
                     yamlSection =
                       \<lparr>SectionTemplate_Name = ''openapi'',
                        SectionTemplate_FuncMap = [''toYAML''],
                        SectionTemplate_Source = ''{{ toYAML .}}'',
                        SectionTemplate_Data = spec\<rparr>
                 in (Some \<lparr>File_Path = jsonPath, File_SectionTemplates = [jsonSection]\<rparr>,
                     Some \<lparr>File_Path = yamlPath, File_SectionTemplates = [yamlSection]\<rparr>,
                     None))))"

text \<open>
  A root of the evaluation is the design root that the generator handles, or a
  root of another kind, which the type assertion of \<^verbatim>\<open>Generate\<close> skips.
\<close>

datatype Root = Root_RootExpr RootExpr | Root_Other

fun Generate_loop ::
  "(string \<Rightarrow> string list) \<Rightarrow> string \<Rightarrow> Root list \<Rightarrow> File list \<Rightarrow> File list \<times> error option" where
  "Generate_loop extract Gendir [] files = (files, None)"
| "Generate_loop extract Gendir (root # roots) files =
     (case root of
        Root_RootExpr r \<Rightarrow>
          (case openapiFiles extract Gendir r of
             (jsonFile, yamlFile, Some err) \<Rightarrow> (files, Some err)
           | (jsonFile, yamlFile, None) \<Rightarrow>
               Generate_loop extract Gendir roots
                 (case (jsonFile, yamlFile) of
                    (Some jsonFile', Some yamlFile') \<Rightarrow> files @ [jsonFile', yamlFile']
                  | _ \<Rightarrow> files))
      | Root_Other \<Rightarrow> Generate_loop extract Gendir roots files)"

definition Generate ::
  "(string \<Rightarrow> string list) \<Rightarrow> string \<Rightarrow> string \<Rightarrow> Root list \<Rightarrow> File list
     \<Rightarrow> File list \<times> error option" where
  "Generate extract Gendir genpkg roots files = Generate_loop extract Gendir roots files"

text \<open>No service of the design has an endpoint with a route.\<close>

definition no_routes :: "RootExpr \<Rightarrow> bool" where
  "no_routes r =
     list_all (\<lambda>service.
       list_all (\<lambda>endpoint. HTTPEndpointExpr_Routes endpoint = [])
         (HTTPServiceExpr_HTTPEndpoints service))
       (APIExpr_HTTP_Services (RootExpr_API r))"

section \<open>Serialization\<close>

text \<open>
  A call returns a value or panics with a message. \<^verbatim>\<open>json.Marshal\<close> and
  \<^verbatim>\<open>yaml.Marshal\<close> are library encoders, parameters of the two helpers: an encoder
  returns the bytes and an error that is \<^verbatim>\<open>nil\<close> on success.
\<close>

datatype 'a outcome = Return 'a | Panic string

definition toJSON :: "('d \<Rightarrow> string \<times> error option) \<Rightarrow> 'd \<Rightarrow> string outcome" where
  "toJSON json_Marshal d =
     (case json_Marshal d of
        (b, Some err) \<Rightarrow> Panic (''openapi: '' @ err)
      | (b, None) \<Rightarrow> Return b)"

definition toYAML :: "('d \<Rightarrow> string \<times> error option) \<Rightarrow> 'd \<Rightarrow> string outcome" where
  "toYAML yaml_Marshal d =
     (case yaml_Marshal d of
        (b, Some err) \<Rightarrow> Panic (''openapi: '' @ err)
      | (b, None) \<Rightarrow> Return b)"

section \<open>The security scheme DSL\<close>

datatype SchemeKind = OAuth2Kind | BasicAuthKind | APIKeyKind | JWTKind | NoKind

datatype FlowKind =
  AuthorizationCodeFlowKind | ImplicitFlowKind | PasswordFlowKind | ClientCredentialsFlowKind

record ScopeExpr =
  ScopeExpr_Name :: string
  ScopeExpr_Description :: string

record FlowExpr =
  FlowExpr_Kind :: FlowKind
  FlowExpr_AuthorizationURL :: string
  FlowExpr_TokenURL :: string
  FlowExpr_RefreshURL :: string

record SchemeExpr =
  SchemeExpr_Kind :: SchemeKind
  SchemeExpr_SchemeName :: string
  SchemeExpr_Description :: string
  SchemeExpr_Scopes :: "ScopeExpr list"
  SchemeExpr_Flows :: "FlowExpr list"

text \<open>
  The expression under evaluation (\<^verbatim>\<open>eval.Current()\<close>), by the cases that the DSL
  functions tell apart, and an error reported to the evaluation context: the one
  of \<^verbatim>\<open>eval.IncompatibleDSL\<close>, or the format and the arguments of a call of
  \<^verbatim>\<open>eval.ReportError\<close>.
\<close>

datatype Expression =
  TopExpr | InAPIExpr | InServiceExpr | InMethodExpr | InSchemeExpr | InSecurityExpr
  | InOtherExpr

datatype Reported = IncompatibleDSLError | ReportedError string "string list"

text \<open>
  The state that the DSL functions read and write: the current expression, the
  errors reported so far, and the registry \<^verbatim>\<open>design.Root.Schemes\<close>.
\<close>

record DSLState =
  DSLState_Current :: Expression
  DSLState_Errors :: "Reported list"
  Root_Schemes :: "SchemeExpr list"

definition IncompatibleDSL :: "DSLState \<Rightarrow> DSLState" where
  "IncompatibleDSL st = st\<lparr>DSLState_Errors := DSLState_Errors st @ [IncompatibleDSLError]\<rparr>"

definition ReportError :: "string \<Rightarrow> string list \<Rightarrow> DSLState \<Rightarrow> DSLState" where
  "ReportError fm vals st =
     st\<lparr>DSLState_Errors := DSLState_Errors st @ [ReportedError fm vals]\<rparr>"

text \<open>
  The optional DSL of a scheme is a closure run by \<^verbatim>\<open>eval.Execute\<close> on the new
  scheme: together they are a function of the scheme and the state that returns
  whether the run reported no error, the scheme as the closure left it, and the
  state.
\<close>

type_synonym SchemeDSL = "SchemeExpr \<Rightarrow> DSLState \<Rightarrow> bool \<times> SchemeExpr \<times> DSLState"

definition securitySchemeRedefined :: "string \<Rightarrow> DSLState \<Rightarrow> bool \<times> DSLState" where
  "securitySchemeRedefined name st =
     (case find (\<lambda>s. SchemeExpr_SchemeName s = name) (Root_Schemes st) of
        Some s \<Rightarrow> (True, ReportError ''cannot redefine security scheme with name %q'' [name] st)
      | None \<Rightarrow> (False, st))"

definition BasicAuthSecurity ::
  "string \<Rightarrow> SchemeDSL list \<Rightarrow> DSLState \<Rightarrow> SchemeExpr option \<times> DSLState" where
  "BasicAuthSecurity name dsl st =
     (if DSLState_Current st \<noteq> TopExpr then (None, IncompatibleDSL st)
      else case securitySchemeRedefined name st of
        (True, st1) \<Rightarrow> (None, st1)
      | (False, st1) \<Rightarrow>
          (let expr = \<lparr>SchemeExpr_Kind = BasicAuthKind, SchemeExpr_SchemeName = name,
                       SchemeExpr_Description = '''', SchemeExpr_Scopes = [],
                       SchemeExpr_Flows = []\<rparr>
           in case dsl of
                [] \<Rightarrow> (Some expr, st1\<lparr>Root_Schemes := Root_Schemes st1 @ [expr]\<rparr>)
              | d # _ \<Rightarrow>
                  (case d expr st1 of
                     (False, expr', st2) \<Rightarrow> (None, st2)
                   | (True, expr', st2) \<Rightarrow>
                       (Some expr', st2\<lparr>Root_Schemes := Root_Schemes st2 @ [expr']\<rparr>))))"

definition APIKeySecurity ::
  "string \<Rightarrow> SchemeDSL list \<Rightarrow> DSLState \<Rightarrow> SchemeExpr option \<times> DSLState" where
  "APIKeySecurity name dsl st =
     (if DSLState_Current st \<noteq> TopExpr then (None, IncompatibleDSL st)
      else case securitySchemeRedefined name st of
        (True, st1) \<Rightarrow> (None, st1)
      | (False, st1) \<Rightarrow>
          (let expr = \<lparr>SchemeExpr_Kind = APIKeyKind, SchemeExpr_SchemeName = name,
                       SchemeExpr_Description = '''', SchemeExpr_Scopes = [],
                       SchemeExpr_Flows = []\<rparr>
           in case dsl of
                [] \<Rightarrow> (Some expr, st1\<lparr>Root_Schemes := Root_Schemes st1 @ [expr]\<rparr>)
              | d # _ \<Rightarrow>
                  (case d expr st1 of
                     (False, expr', st2) \<Rightarrow> (None, st2)
                   | (True, expr', st2) \<Rightarrow>
                       (Some expr', st2\<lparr>Root_Schemes := Root_Schemes st2 @ [expr']\<rparr>))))"

definition OAuth2Security ::
  "string \<Rightarrow> SchemeDSL list \<Rightarrow> DSLState \<Rightarrow> SchemeExpr option \<times> DSLState" where
  "OAuth2Security name dsl st =
     (if DSLState_Current st \<noteq> TopExpr then (None, IncompatibleDSL st)
      else case securitySchemeRedefined name st of
        (True, st1) \<Rightarrow> (None, st1)
      | (False, st1) \<Rightarrow>
          (let expr = \<lparr>SchemeExpr_Kind = OAuth2Kind, SchemeExpr_SchemeName = name,
                       SchemeExpr_Description = '''', SchemeExpr_Scopes = [],
                       SchemeExpr_Flows = []\<rparr>
           in case dsl of
                [] \<Rightarrow> (Some expr, st1\<lparr>Root_Schemes := Root_Schemes st1 @ [expr]\<rparr>)
              | d # _ \<Rightarrow>
                  (case d expr st1 of
                     (False, expr', st2) \<Rightarrow> (None, st2)
                   | (True, expr', st2) \<Rightarrow>
                       (Some expr', st2\<lparr>Root_Schemes := Root_Schemes st2 @ [expr']\<rparr>))))"

definition JWTSecurity ::
  "string \<Rightarrow> SchemeDSL list \<Rightarrow> DSLState \<Rightarrow> SchemeExpr option \<times> DSLState" where
  "JWTSecurity name dsl st =
     (if DSLState_Current st \<noteq> TopExpr then (None, IncompatibleDSL st)
      else case securitySchemeRedefined name st of
        (True, st1) \<Rightarrow> (None, st1)
      | (False, st1) \<Rightarrow>
          (let expr = \<lparr>SchemeExpr_Kind = JWTKind, SchemeExpr_SchemeName = name,
                       SchemeExpr_Description = '''', SchemeExpr_Scopes = [],
                       SchemeExpr_Flows = []\<rparr>
           in case dsl of
                [] \<Rightarrow> (Some expr, st1\<lparr>Root_Schemes := Root_Schemes st1 @ [expr]\<rparr>)
              | d # _ \<Rightarrow>
                  (case d expr st1 of
                     (False, expr', st2) \<Rightarrow> (None, st2)
                   | (True, expr', st2) \<Rightarrow>
                       (Some expr', st2\<lparr>Root_Schemes := Root_Schemes st2 @ [expr']\<rparr>))))"

section \<open>Concrete designs\<close>

text \<open>
  A payload with an optional \<open>x\<close>, an optional \<open>y\<close> and a required array \<open>z\<close>,
  for a route at \<open>/add/{x}\<close>.
\<close>

definition add_params :: MappedAttributeExpr where
  "add_params =
     [\<lparr>Entry_Name = ''x'', Entry_ElemName = ''x'', Entry_Required = False,
       Entry_Attribute = \<lparr>AttributeExpr_Type = IntKind,
         AttributeExpr_Description = ''left operand'', AttributeExpr_Meta = []\<rparr>\<rparr>,
      \<lparr>Entry_Name = ''y'', Entry_ElemName = ''y'', Entry_Required = False,
       Entry_Attribute = \<lparr>AttributeExpr_Type = IntKind,
         AttributeExpr_Description = ''right operand'', AttributeExpr_Meta = []\<rparr>\<rparr>,
      \<lparr>Entry_Name = ''z'', Entry_ElemName = ''zs'', Entry_Required = True,
       Entry_Attribute = \<lparr>AttributeExpr_Type = ArrayKind,
         AttributeExpr_Description = ''more operands'', AttributeExpr_Meta = []\<rparr>\<rparr>]"

text \<open>
  The parameters of the method \<^verbatim>\<open>secured_read\<close> in the documentation of
  \<^verbatim>\<open>APIKey\<close>, with the key as a query string parameter of its own name: the
  attribute \<open>key\<close> carries the metadata that \<^verbatim>\<open>APIKey("api_key", "key", ...)\<close> sets.
\<close>

definition key_params :: MappedAttributeExpr where
  "key_params =
     [\<lparr>Entry_Name = ''key'', Entry_ElemName = ''key'', Entry_Required = True,
       Entry_Attribute = \<lparr>AttributeExpr_Type = StringKind,
         AttributeExpr_Description = ''API key used to perform authorization'',
         AttributeExpr_Meta = [(''security:apikey:api_key'', [''api_key''])]\<rparr>\<rparr>]"

text \<open>
  An endpoint of the method \<open>name\<close> with one route, and a design with one service
  \<open>svc\<close> that holds the given endpoints.
\<close>

definition endpoint_at :: "string \<Rightarrow> string \<Rightarrow> string \<Rightarrow> HTTPEndpointExpr" where
  "endpoint_at name verb path =
     \<lparr>HTTPEndpointExpr_MethodExpr = \<lparr>MethodExpr_Name = name, MethodExpr_Description = ''''\<rparr>,
      HTTPEndpointExpr_Params = None,
      HTTPEndpointExpr_Routes =
        [\<lparr>RouteExpr_Method = verb, RouteExpr_Path = path,
          RouteExpr_Endpoint = \<lparr>MethodExpr_Name = name, MethodExpr_Description = ''''\<rparr>\<rparr>]\<rparr>"

definition design_of :: "HTTPEndpointExpr list \<Rightarrow> RootExpr" where
  "design_of endpoints =
     \<lparr>RootExpr_API =
        \<lparr>APIExpr_Title = ''test api'', APIExpr_Description = '''',
         APIExpr_TermsOfService = '''', APIExpr_Contact = None, APIExpr_License = None,
         APIExpr_Version = '''', APIExpr_Servers = None,
         APIExpr_HTTP_Services =
           [\<lparr>HTTPServiceExpr_Name = ''svc'', HTTPServiceExpr_HTTPEndpoints = endpoints\<rparr>]\<rparr>\<rparr>"

text \<open>The design without any HTTP service.\<close>

definition design_without_services :: RootExpr where
  "design_without_services =
     \<lparr>RootExpr_API =
        \<lparr>APIExpr_Title = ''test api'', APIExpr_Description = '''',
         APIExpr_TermsOfService = '''', APIExpr_Contact = None, APIExpr_License = None,
         APIExpr_Version = '''', APIExpr_Servers = None,
         APIExpr_HTTP_Services = []\<rparr>\<rparr>"

text \<open>The operation of the method \<open>name\<close> of the service \<open>svc\<close>, without parameters.\<close>

definition plain_operation :: "string \<Rightarrow> Operation" where
  "plain_operation name =
     \<lparr>Operation_OperationID = ''svc#'' @ name, Operation_Description = '''',
      Operation_Parameters = [], Operation_Responses = Map.empty\<rparr>"

text \<open>A registry at the top level that holds the basic authentication scheme \<open>password\<close>.\<close>

definition registry_with_password :: "Expression \<Rightarrow> DSLState" where
  "registry_with_password current =
     \<lparr>DSLState_Current = current, DSLState_Errors = [],
      Root_Schemes =
        [\<lparr>SchemeExpr_Kind = BasicAuthKind, SchemeExpr_SchemeName = ''password'',
          SchemeExpr_Description = ''Use your own password!'', SchemeExpr_Scopes = [],
          SchemeExpr_Flows = []\<rparr>]\<rparr>"

text \<open>An encoder that fails on every value, and one that succeeds on every value.\<close>

definition failing_Marshal :: "nat \<Rightarrow> string \<times> error option" where
  "failing_Marshal d = ('''', Some ''unsupported type'')"

definition constant_Marshal :: "nat \<Rightarrow> string \<times> error option" where
  "constant_Marshal d = (''{}'', None)"

section \<open>Properties\<close>

subsection \<open>Servers\<close>

lemma fold_servers_uri:
  "fold (servers_uri host) uris acc = acc @ map (\<lambda>uri. server_entry (host, uri)) uris"
  by (induction uris arbitrary: acc) (simp_all add: servers_uri_def server_entry_def)

lemma fold_servers_host:
  "fold servers_host hosts acc =
     acc @ concat (map (\<lambda>host. map (\<lambda>uri. server_entry (host, uri)) (HostExpr_URIs host)) hosts)"
  by (induction hosts arbitrary: acc) (simp_all add: servers_host_def fold_servers_uri)

lemma fold_servers_server:
  "fold servers_server s acc = acc @ map server_entry (host_uri_pairs s)"
  by (induction s arbitrary: acc)
    (simp_all add: servers_server_def fold_servers_host host_uri_pairs_def map_concat comp_def)

lemma servers_Some: "servers (Some s) = Some (map server_entry (host_uri_pairs s))"
  by (simp add: servers_def fold_servers_server)

lemma servers_None: "servers None = None"
  by (simp add: servers_def)

lemma length_host_uri_pairs:
  "length (host_uri_pairs s) =
     sum_list (map (\<lambda>server. sum_list (map (\<lambda>host. length (HostExpr_URIs host))
       (ServerExpr_Hosts server))) s)"
  by (simp add: host_uri_pairs_def length_concat comp_def)

lemma info_Version_eq:
  "Info_Version (info api) =
     (if APIExpr_Version api = '''' then ''unversioned'' else APIExpr_Version api)"
  by (simp add: info_def)

subsection \<open>The walk over the parameters\<close>

lemma wildcards_loop_eq:
  "wildcards_loop n ws (q, r) = (if n \<in> set ws then (''path'', True) else (q, r))"
  by (induction ws) simp_all

lemma paramFor_classify:
  "(case wildcards_loop (Entry_Name e) ws (''query'', Entry_Required e) of
      (in', required') \<Rightarrow> paramFor (Entry_Attribute e) (Entry_ElemName e) in' required')
   = classify_entry ws e"
  by (simp add: wildcards_loop_eq paramFor_def classify_entry_def IsArray_def)

lemma WalkMappedAttr_walker:
  "WalkMappedAttr ps (paramsFromExpr_walker ws) (res, i) =
     (None, (res @ map (classify_entry ws) ps, i + int (length ps)))"
proof (induction ps arbitrary: res i)
  case Nil
  show ?case by simp
next
  case (Cons e es)
  have step: "paramsFromExpr_walker ws (Entry_Name e) (Entry_ElemName e) (Entry_Required e)
      (Entry_Attribute e) (res, i) = (None, (res @ [classify_entry ws e], i + 1))"
    using paramFor_classify [of e ws]
    by (simp add: paramsFromExpr_walker_def split: prod.splits)
  show ?case by (simp add: step Cons.IH)
qed

lemma paramsFromExpr_Some:
  "paramsFromExpr extract (Some ps) path = map (classify_entry (extract path)) ps"
  by (simp add: paramsFromExpr_def WalkMappedAttr_walker)

lemma extract_add: "ExtractHTTPWildcards ''/add/{x}'' = [''x'']"
  by (simp add: ExtractHTTPWildcards_def)

subsection \<open>The loops over the routes\<close>

lemma fold_triples:
  "fold (paths_service extract) svcs m =
   fold (\<lambda>(s, e, rt). paths_route extract s e rt)
     (concat (map (\<lambda>service.
       concat (map (\<lambda>endpoint. map (\<lambda>route. (service, endpoint, route))
           (HTTPEndpointExpr_Routes endpoint))
         (HTTPServiceExpr_HTTPEndpoints service))) svcs)) m"
proof -
  have r: "\<And>s e rts m. fold (paths_route extract s e) rts m =
      fold (\<lambda>(s, e, rt). paths_route extract s e rt) (map (\<lambda>route. (s, e, route)) rts) m"
    by (simp add: fold_map comp_def)
  have e: "\<And>s es m. fold (paths_endpoint extract s) es m =
      fold (\<lambda>(s, e, rt). paths_route extract s e rt)
        (concat (map (\<lambda>endpoint. map (\<lambda>route. (s, endpoint, route))
           (HTTPEndpointExpr_Routes endpoint)) es)) m"
    subgoal for s es m
      by (induction es arbitrary: m) (simp_all add: paths_endpoint_def r)
    done
  show ?thesis
    by (induction svcs arbitrary: m) (simp_all add: paths_service_def e)
qed

lemma paths_fold: "paths extract r = fold (\<lambda>(s, e, rt). paths_route extract s e rt) (routes_of r) Map.empty"
  by (simp add: paths_def routes_of_def fold_triples)

lemma fold_paths_route_lookup:
  "fold (\<lambda>(s, e, rt). paths_route extract s e rt) ts m p =
     (case find (\<lambda>(s, e, rt). RouteExpr_Path rt = p) (rev ts) of
        None \<Rightarrow> m p
      | Some (s, e, rt) \<Rightarrow>
          Some ((case m p of Some item \<Rightarrow> item | None \<Rightarrow> PathItem_zero)
                  \<lparr>PathItem_Get := Some (operation extract s e rt)\<rparr>))"
proof (induction ts rule: rev_induct)
  case Nil
  show ?case by simp
next
  case (snoc t ts)
  obtain s e rt where t: "t = (s, e, rt)" by (cases t)
  show ?case
    using snoc.IH
    by (auto simp add: t paths_route_def Let_def split: option.splits)
qed

lemma paths_lookup:
  "paths extract r p =
     (case find (\<lambda>(s, e, rt). RouteExpr_Path rt = p) (rev (routes_of r)) of
        None \<Rightarrow> None
      | Some (s, e, rt) \<Rightarrow>
          Some (PathItem_zero\<lparr>PathItem_Get := Some (operation extract s e rt)\<rparr>))"
  by (simp add: paths_fold fold_paths_route_lookup split: option.splits)

lemma operation_frame:
  "operation extract (s\<lparr>HTTPServiceExpr_HTTPEndpoints := es\<rparr>)
     (e\<lparr>HTTPEndpointExpr_Routes := rs\<rparr>) (rt\<lparr>RouteExpr_Method := v\<rparr>)
   = operation extract s e rt"
  by (simp add: operation_def)

lemma paths_route_frame:
  "paths_route extract (s\<lparr>HTTPServiceExpr_HTTPEndpoints := es\<rparr>)
     (e\<lparr>HTTPEndpointExpr_Routes := rs\<rparr>) (rt\<lparr>RouteExpr_Method := v\<rparr>)
   = paths_route extract s e rt"
  by (rule ext) (simp add: paths_route_def operation_frame)

lemma paths_endpoint_frame:
  "paths_endpoint extract (s\<lparr>HTTPServiceExpr_HTTPEndpoints := es\<rparr>)
     (e\<lparr>HTTPEndpointExpr_Routes :=
        map (\<lambda>route. route\<lparr>RouteExpr_Method := verb route\<rparr>) (HTTPEndpointExpr_Routes e)\<rparr>)
   = paths_endpoint extract s e"
  by (rule ext) (simp add: paths_endpoint_def fold_map comp_def paths_route_frame)

lemma paths_service_frame:
  "paths_service extract
     (s\<lparr>HTTPServiceExpr_HTTPEndpoints :=
        map (\<lambda>endpoint. endpoint\<lparr>HTTPEndpointExpr_Routes :=
             map (\<lambda>route. route\<lparr>RouteExpr_Method := verb route\<rparr>)
               (HTTPEndpointExpr_Routes endpoint)\<rparr>)
          (HTTPServiceExpr_HTTPEndpoints s)\<rparr>)
   = paths_service extract s"
  by (rule ext) (simp add: paths_service_def fold_map comp_def paths_endpoint_frame)

lemma paths_with_verbs: "paths extract (with_verbs verb r) = paths extract r"
  by (simp add: paths_def with_verbs_def fold_map comp_def paths_service_frame)

lemma paths_None:
  "(paths extract r p = None) =
     (find (\<lambda>(s, e, rt). RouteExpr_Path rt = p) (rev (routes_of r)) = None)"
  by (simp add: paths_lookup split: option.splits)

lemma dom_paths:
  "dom (paths extract r) = (\<lambda>(s, e, rt). RouteExpr_Path rt) ` set (routes_of r)"
proof (rule set_eqI)
  fix p
  have "(p \<in> dom (paths extract r)) = (paths extract r p \<noteq> None)"
    by (simp add: dom_def)
  also have "\<dots> = (\<exists>t. t \<in> set (routes_of r) \<and> (case t of (s, e, rt) \<Rightarrow> RouteExpr_Path rt = p))"
    by (simp add: paths_None find_None_iff)
  also have "\<dots> = (p \<in> (\<lambda>(s, e, rt). RouteExpr_Path rt) ` set (routes_of r))"
    by force
  finally show "(p \<in> dom (paths extract r)) =
      (p \<in> (\<lambda>(s, e, rt). RouteExpr_Path rt) ` set (routes_of r))" .
qed

lemma paths_same_get:
  "paths extract (design_of [endpoint_at ''a'' ''GET'' ''/same'', endpoint_at ''b'' v ''/same''])
     = [''/same'' \<mapsto> PathItem_zero\<lparr>PathItem_Get := Some (plain_operation ''b'')\<rparr>]"
  by (simp add: paths_def design_of_def endpoint_at_def paths_service_def paths_endpoint_def
      paths_route_def operation_def paramsFromExpr_def plain_operation_def)

subsection \<open>The registry of security schemes\<close>

lemma redefined_True:
  "name \<in> SchemeExpr_SchemeName ` set (Root_Schemes st) \<Longrightarrow>
   securitySchemeRedefined name st =
     (True, ReportError ''cannot redefine security scheme with name %q'' [name] st)"
proof -
  assume a: "name \<in> SchemeExpr_SchemeName ` set (Root_Schemes st)"
  have "find (\<lambda>s. SchemeExpr_SchemeName s = name) (Root_Schemes st) \<noteq> None"
    using a by (auto simp add: find_None_iff)
  then show ?thesis
    by (auto simp add: securitySchemeRedefined_def split: option.splits)
qed

section \<open>Statements of the specification\<close>

text \<open>
  C1: for every set of payload attributes and every path template, the parameters
  are the attributes in declaration order, each classified on its own: an attribute
  whose name is one of the wildcards of the path is a parameter in the path and
  required, whatever its own required flag; any other attribute is a query
  parameter with its own required flag. Without a set of attributes there is no
  parameter.
\<close>

theorem paramsFromExpr_classifies:
  "paramsFromExpr extract (Some ps) path = map (classify_entry (extract path)) ps
   \<and> paramsFromExpr extract None path = []"
  by (simp add: paramsFromExpr_Some) (simp add: paramsFromExpr_def)

text \<open>
  C1 at the route \<open>/add/{x}\<close>: the optional \<open>x\<close> becomes a required parameter in
  the path, the optional \<open>y\<close> stays an optional query parameter, and the required
  array \<open>z\<close> is a required, exploded query parameter under its element name.
\<close>

theorem paramsFromExpr_classifies_witness:
  "paramsFromExpr ExtractHTTPWildcards (Some add_params) ''/add/{x}'' =
     [\<lparr>ParameterRef_Value = \<lparr>Parameter_In = ''path'', Parameter_Name = ''x'',
         Parameter_Description = ''left operand'', Parameter_Required = True,
         Parameter_Explode = None\<rparr>\<rparr>,
      \<lparr>ParameterRef_Value = \<lparr>Parameter_In = ''query'', Parameter_Name = ''y'',
         Parameter_Description = ''right operand'', Parameter_Required = False,
         Parameter_Explode = None\<rparr>\<rparr>,
      \<lparr>ParameterRef_Value = \<lparr>Parameter_In = ''query'', Parameter_Name = ''zs'',
         Parameter_Description = ''more operands'', Parameter_Required = True,
         Parameter_Explode = Some True\<rparr>\<rparr>]"
  using paramsFromExpr_classifies [of ExtractHTTPWildcards add_params "''/add/{x}''"]
  by (simp add: extract_add add_params_def classify_entry_def)

text \<open>
  C3 as stated fails: the attribute \<open>key\<close> carries the security role of an API key,
  and the parameter list of its endpoint holds a parameter of that name.
\<close>

theorem security_attribute_emitted:
  "security_tagged (Entry_Attribute (hd key_params))
   \<and> map (\<lambda>p. Parameter_Name (ParameterRef_Value p))
        (paramsFromExpr ExtractHTTPWildcards (Some key_params) ''/'') = [''key'']
   \<and> map Entry_Name key_params = [''key'']"
  by (simp add: paramsFromExpr_Some key_params_def classify_entry_def security_tagged_def
      security_key_def)

text \<open>
  C3, amended: the parameter list has one parameter for every attribute of the
  set, tagged with a security role or not, named by the HTTP element of the
  attribute; the metadata of the attributes, where the roles are kept, has no
  influence on the list.
\<close>

theorem paramsFromExpr_ignores_meta:
  "map (\<lambda>p. Parameter_Name (ParameterRef_Value p)) (paramsFromExpr extract (Some ps) path)
     = map Entry_ElemName ps
   \<and> paramsFromExpr extract
        (Some (map (\<lambda>e. e\<lparr>Entry_Attribute :=
           (Entry_Attribute e)\<lparr>AttributeExpr_Meta := meta e\<rparr>\<rparr>) ps)) path
     = paramsFromExpr extract (Some ps) path"
  by (simp add: paramsFromExpr_Some classify_entry_def comp_def)

text \<open>
  C10: the path item of a path holds exactly one operation, in its GET field: the
  operation of the last route to that path, in the order services, endpoints,
  routes; every other field of the item is empty. The verbs of the routes are not
  read: replacing them by any others leaves the paths unchanged.
\<close>

theorem paths_get_only:
  "paths extract r p =
     (case find (\<lambda>(s, e, rt). RouteExpr_Path rt = p) (rev (routes_of r)) of
        None \<Rightarrow> None
      | Some (s, e, rt) \<Rightarrow>
          Some (PathItem_zero\<lparr>PathItem_Get := Some (operation extract s e rt)\<rparr>))
   \<and> paths extract (with_verbs verb r) = paths extract r"
  by (simp add: paths_lookup paths_with_verbs)

text \<open>
  C2 as stated fails: with two methods \<open>a\<close> and \<open>b\<close> both routed at GET \<open>/same\<close>,
  the document is returned without an error, both files are produced, and the
  path item of \<open>/same\<close> holds the operation of \<open>b\<close>. With \<open>b\<close> routed at POST
  \<open>/same\<close> instead, the path item is the same one: the operation of \<open>b\<close> in the
  GET field and no operation in the POST field.
\<close>

theorem conflicting_routes_accepted:
  "map (\<lambda>(s, e, rt). (MethodExpr_Name (HTTPEndpointExpr_MethodExpr e), RouteExpr_Method rt,
          RouteExpr_Path rt))
     (routes_of (design_of [endpoint_at ''a'' ''GET'' ''/same'', endpoint_at ''b'' ''GET'' ''/same'']))
     = [(''a'', ''GET'', ''/same''), (''b'', ''GET'', ''/same'')]
   \<and> snd (NewV3 ExtractHTTPWildcards
        (design_of [endpoint_at ''a'' ''GET'' ''/same'', endpoint_at ''b'' ''GET'' ''/same''])) = None
   \<and> Swagger_Paths (fst (NewV3 ExtractHTTPWildcards
        (design_of [endpoint_at ''a'' ''GET'' ''/same'', endpoint_at ''b'' ''GET'' ''/same''])))
     = [''/same'' \<mapsto> PathItem_zero\<lparr>PathItem_Get := Some (plain_operation ''b'')\<rparr>]
   \<and> map_option File_Path (fst (openapiFiles ExtractHTTPWildcards ''gen''
        (design_of [endpoint_at ''a'' ''GET'' ''/same'', endpoint_at ''b'' ''GET'' ''/same''])))
     = Some [''gen'', ''http'', ''openapi.json'']
   \<and> Swagger_Paths (fst (NewV3 ExtractHTTPWildcards
        (design_of [endpoint_at ''a'' ''GET'' ''/same'', endpoint_at ''b'' ''POST'' ''/same''])))
     = [''/same'' \<mapsto> PathItem_zero\<lparr>PathItem_Get := Some (plain_operation ''b'')\<rparr>]"
proof -
  have routes: "map (\<lambda>(s, e, rt). (MethodExpr_Name (HTTPEndpointExpr_MethodExpr e),
        RouteExpr_Method rt, RouteExpr_Path rt))
     (routes_of (design_of [endpoint_at ''a'' ''GET'' ''/same'', endpoint_at ''b'' ''GET'' ''/same'']))
     = [(''a'', ''GET'', ''/same''), (''b'', ''GET'', ''/same'')]"
    by (simp add: routes_of_def design_of_def endpoint_at_def)
  have files: "map_option File_Path (fst (openapiFiles ExtractHTTPWildcards ''gen''
        (design_of [endpoint_at ''a'' ''GET'' ''/same'', endpoint_at ''b'' ''GET'' ''/same''])))
     = Some [''gen'', ''http'', ''openapi.json'']"
    by (simp add: openapiFiles_def NewV3_def design_of_def)
  show ?thesis
    by (simp only: routes files paths_same_get NewV3_def fst_conv snd_conv Swagger.simps simp_thms)
qed

text \<open>
  C2, amended: for every design, document assembly returns a document and no
  error, and so does the production of the files; there is no error for
  conflicting routes. The paths of the document are exactly the paths of the
  routes, one path item for each. The operations of the routes that share a path
  are not merged: the path item of a path holds the operation of the last route
  to that path, in the order services, endpoints, routes, and no other operation.
\<close>

theorem NewV3_no_error:
  "snd (NewV3 extract r) = None
   \<and> snd (snd (openapiFiles extract Gendir r)) = None
   \<and> dom (Swagger_Paths (fst (NewV3 extract r)))
       = (\<lambda>(s, e, rt). RouteExpr_Path rt) ` set (routes_of r)
   \<and> Swagger_Paths (fst (NewV3 extract r)) p =
       (case find (\<lambda>(s, e, rt). RouteExpr_Path rt = p) (rev (routes_of r)) of
          None \<Rightarrow> None
        | Some (s, e, rt) \<Rightarrow>
            Some (PathItem_zero\<lparr>PathItem_Get := Some (operation extract s e rt)\<rparr>))"
  by (simp add: NewV3_def openapiFiles_def dom_paths paths_lookup)

text \<open>
  C4 as stated fails: a design whose only HTTP service has no endpoint exposes no
  route, and both files are produced for it.
\<close>

theorem service_without_routes_documented:
  "no_routes (design_of [])
   \<and> map_option File_Path (fst (openapiFiles ExtractHTTPWildcards ''gen'' (design_of [])))
       = Some [''gen'', ''http'', ''openapi.json'']
   \<and> map_option File_Path (fst (snd (openapiFiles ExtractHTTPWildcards ''gen'' (design_of []))))
       = Some [''gen'', ''http'', ''openapi.yaml'']
   \<and> snd (snd (openapiFiles ExtractHTTPWildcards ''gen'' (design_of []))) = None
   \<and> fst (Generate ExtractHTTPWildcards ''gen'' '''' [Root_RootExpr (design_of [])] [])
       \<noteq> []"
  by (simp add: no_routes_def design_of_def openapiFiles_def NewV3_def Generate_def)

text \<open>
  C4, amended: for every design without any HTTP service, no file and no error
  are returned, and generation leaves the list of files as it was; for every
  design with at least one HTTP service, with or without routes, both files are
  returned, each with the assembled document, and no error.
\<close>

theorem openapiFiles_guard:
  "(APIExpr_HTTP_Services (RootExpr_API r) = [] \<longrightarrow>
      openapiFiles extract Gendir r = (None, None, None)
      \<and> Generate extract Gendir genpkg [Root_RootExpr r] files = (files, None))
   \<and> (APIExpr_HTTP_Services (RootExpr_API r) \<noteq> [] \<longrightarrow>
      openapiFiles extract Gendir r =
        (Some \<lparr>File_Path = [Gendir, ''http'', ''openapi.json''],
               File_SectionTemplates =
                 [\<lparr>SectionTemplate_Name = ''openapi'',
                   SectionTemplate_FuncMap = [''toJSON''],
                   SectionTemplate_Source = ''{{ toJSON .}}'',
                   SectionTemplate_Data = fst (NewV3 extract r)\<rparr>]\<rparr>,
         Some \<lparr>File_Path = [Gendir, ''http'', ''openapi.yaml''],
               File_SectionTemplates =
                 [\<lparr>SectionTemplate_Name = ''openapi'',
                   SectionTemplate_FuncMap = [''toYAML''],
                   SectionTemplate_Source = ''{{ toYAML .}}'',
                   SectionTemplate_Data = fst (NewV3 extract r)\<rparr>]\<rparr>,
         None))"
  by (simp add: openapiFiles_def Generate_def NewV3_def)

text \<open>
  C4, amended, at the design without services and at the design whose service has
  no endpoint.
\<close>

theorem openapiFiles_guard_witness:
  "openapiFiles ExtractHTTPWildcards ''gen'' design_without_services = (None, None, None)
   \<and> Generate ExtractHTTPWildcards ''gen'' '''' [Root_RootExpr design_without_services] []
       = ([], None)
   \<and> map_option File_Path (fst (openapiFiles ExtractHTTPWildcards ''gen'' (design_of [])))
       = Some [''gen'', ''http'', ''openapi.json'']"
  using openapiFiles_guard [of design_without_services ExtractHTTPWildcards "''gen''" "''''" "[]"]
    openapiFiles_guard [of "design_of []" ExtractHTTPWildcards "''gen''" "''''" "[]"]
  by (simp add: design_without_services_def design_of_def)

text \<open>
  C6: for every design, the version of the info block of the assembled document
  is the API's declared version when that is not the empty string, and the
  literal \<open>unversioned\<close> when the API declares none; the info block is the one
  that \<open>info\<close> builds from the API.
\<close>

theorem info_version:
  "Info_Version (Swagger_Info (fst (NewV3 extract r))) =
     (if APIExpr_Version (RootExpr_API r) = '''' then ''unversioned''
      else APIExpr_Version (RootExpr_API r))
   \<and> Swagger_Info (fst (NewV3 extract r)) = info (RootExpr_API r)
   \<and> Info_Version (info api) =
     (if APIExpr_Version api = '''' then ''unversioned'' else APIExpr_Version api)"
  by (simp add: NewV3_def info_Version_eq)

text \<open>
  C7: for every design, the servers list of the assembled document holds, for the
  declared list of servers of the API, one entry for every pair of a host and one
  of its URIs, servers outermost, then hosts, then URIs, each entry with the URI
  as its URL and the host's description; its length is the number of these
  pairs; an absent list of servers gives an absent list.
\<close>

theorem servers_cross_product:
  "Swagger_Servers (fst (NewV3 extract r)) =
     map_option (\<lambda>s. map server_entry (host_uri_pairs s)) (APIExpr_Servers (RootExpr_API r))
   \<and> map_option length (Swagger_Servers (fst (NewV3 extract r))) =
     map_option
       (\<lambda>s. sum_list (map (\<lambda>server. sum_list (map (\<lambda>host. length (HostExpr_URIs host))
          (ServerExpr_Hosts server))) s))
       (APIExpr_Servers (RootExpr_API r))
   \<and> servers (Some s) = Some (map server_entry (host_uri_pairs s))
   \<and> servers None = None"
  by (cases "APIExpr_Servers (RootExpr_API r)")
    (simp_all add: NewV3_def servers_Some servers_None length_host_uri_pairs)

text \<open>
  C8 as stated fails: inside an API expression, with the name \<open>password\<close> already
  registered, each of the four constructors reports the incompatible use of the
  DSL and nothing else; no redefinition of the name is reported.
\<close>

theorem scheme_redefined_outside_top:
  "''password'' \<in> set (map SchemeExpr_SchemeName (Root_Schemes (registry_with_password InAPIExpr)))
   \<and> DSLState_Errors (snd (BasicAuthSecurity ''password'' [] (registry_with_password InAPIExpr)))
       = [IncompatibleDSLError]
   \<and> DSLState_Errors (snd (APIKeySecurity ''password'' [] (registry_with_password InAPIExpr)))
       = [IncompatibleDSLError]
   \<and> DSLState_Errors (snd (OAuth2Security ''password'' [] (registry_with_password InAPIExpr)))
       = [IncompatibleDSLError]
   \<and> DSLState_Errors (snd (JWTSecurity ''password'' [] (registry_with_password InAPIExpr)))
       = [IncompatibleDSLError]"
  by (simp add: registry_with_password_def BasicAuthSecurity_def APIKeySecurity_def
      OAuth2Security_def JWTSecurity_def IncompatibleDSL_def)

text \<open>
  C8, amended: when the name is already registered, each of the four scheme
  constructors returns no scheme and leaves the registry as it was. Called at the
  top level, it reports the redefinition of the name and changes nothing else;
  called anywhere else, it reports the incompatible use of the DSL instead and
  changes nothing else.
\<close>

theorem scheme_redefined:
  assumes "name \<in> SchemeExpr_SchemeName ` set (Root_Schemes st)"
  shows "\<forall>define \<in> {BasicAuthSecurity, APIKeySecurity, OAuth2Security, JWTSecurity}.
           fst (define name dsl st) = None
           \<and> Root_Schemes (snd (define name dsl st)) = Root_Schemes st
           \<and> (DSLState_Current st = TopExpr \<longrightarrow>
                snd (define name dsl st) =
                  ReportError ''cannot redefine security scheme with name %q'' [name] st)
           \<and> (DSLState_Current st \<noteq> TopExpr \<longrightarrow>
                snd (define name dsl st) = IncompatibleDSL st)"
  using redefined_True [OF assms]
  by (simp add: BasicAuthSecurity_def APIKeySecurity_def OAuth2Security_def JWTSecurity_def
      IncompatibleDSL_def ReportError_def)

text \<open>
  C8, amended, at the registry that holds the scheme \<open>password\<close>: a second
  definition of that name at the top level reports the redefinition, and the
  registry is unchanged also when the call is made inside an API expression.
\<close>

theorem scheme_redefined_witness:
  "BasicAuthSecurity ''password'' [] (registry_with_password TopExpr) =
     (None, (registry_with_password TopExpr)\<lparr>DSLState_Errors :=
        [ReportedError ''cannot redefine security scheme with name %q'' [''password'']]\<rparr>)
   \<and> JWTSecurity ''password'' [] (registry_with_password TopExpr) =
     (None, (registry_with_password TopExpr)\<lparr>DSLState_Errors :=
        [ReportedError ''cannot redefine security scheme with name %q'' [''password'']]\<rparr>)
   \<and> Root_Schemes (snd (OAuth2Security ''password'' [] (registry_with_password InAPIExpr)))
       = Root_Schemes (registry_with_password InAPIExpr)"
proof -
  have top: "''password'' \<in> SchemeExpr_SchemeName ` set (Root_Schemes (registry_with_password TopExpr))"
    by (simp add: registry_with_password_def)
  have api: "''password'' \<in> SchemeExpr_SchemeName ` set (Root_Schemes (registry_with_password InAPIExpr))"
    by (simp add: registry_with_password_def)
  have current: "DSLState_Current (registry_with_password TopExpr) = TopExpr"
    by (simp add: registry_with_password_def)
  have report: "ReportError ''cannot redefine security scheme with name %q'' [''password'']
      (registry_with_password TopExpr) =
      (registry_with_password TopExpr)\<lparr>DSLState_Errors :=
        [ReportedError ''cannot redefine security scheme with name %q'' [''password'']]\<rparr>"
    by (simp add: registry_with_password_def ReportError_def)
  show ?thesis
    using scheme_redefined [OF top, of "[]"] scheme_redefined [OF api, of "[]"]
    by (simp add: current report prod_eq_iff)
qed

text \<open>
  C9: each serialization helper panics exactly when its encoder returns an error,
  with the message of the error after the prefix \<open>openapi: \<close>, and returns a
  string exactly when the encoder succeeds, the encoded bytes; it has no error
  result.
\<close>

theorem marshal_failure_panics:
  "(toJSON json_Marshal d = Panic msg) =
     (\<exists>b err. json_Marshal d = (b, Some err) \<and> msg = ''openapi: '' @ err)
   \<and> (toJSON json_Marshal d = Return s) = (json_Marshal d = (s, None))
   \<and> (toYAML yaml_Marshal d = Panic msg) =
     (\<exists>b err. yaml_Marshal d = (b, Some err) \<and> msg = ''openapi: '' @ err)
   \<and> (toYAML yaml_Marshal d = Return s) = (yaml_Marshal d = (s, None))"
  by (auto simp add: toJSON_def toYAML_def split: prod.splits option.splits)

text \<open>
  C9 at an encoder that fails and at one that succeeds.
\<close>

theorem marshal_failure_panics_witness:
  "toJSON failing_Marshal 0 = Panic ''openapi: unsupported type''
   \<and> toYAML constant_Marshal 0 = Return ''{}''"
  using marshal_failure_panics
    [of failing_Marshal 0 "''openapi: unsupported type''" "''{}''" constant_Marshal]
  by (simp add: failing_Marshal_def constant_Marshal_def)

end
